theory Spec2Isabelle
  imports Main "HOL-Library.Word" "HOL-Library.Signed_Division"
begin

section \<open>BeScreenCapture: the capture controller\<close>

text \<open>
  A shallow embedding of \<^verbatim>\<open>Controller.cpp\<close> (the second document of
  \<^verbatim>\<open>src/FramesList.h\<close>). The controller object is a record of its member
  variables; every member function takes the record and returns the updated one.
  What the operating system, the screen and the file system decide is passed in as an
  explicit environment argument. Notifications sent with \<^verbatim>\<open>SendNotices\<close>
  are appended to a log kept in the record. The members that only serve reading pixels
  and pacing (\<^verbatim>\<open>fDirectInfo\<close>, \<^verbatim>\<open>fDirectWindowAvailable\<close>,
  \<^verbatim>\<open>fSupportsWaitForRetrace\<close>) are left out: the outcome of reading the
  screen is an input of the model, and waiting is not modelled.
\<close>

subsection \<open>Kernel kit types and constants\<close>

text \<open>
  \<^verbatim>\<open>status_t\<close> and \<^verbatim>\<open>thread_id\<close> are 32-bit signed integers on which
  the controller performs comparisons only; they are modelled as \<open>int\<close>.
  \<^verbatim>\<open>int32\<close> and \<^verbatim>\<open>bigtime_t\<close> values that take part in arithmetic are words.
\<close>

type_synonym status_t = int
type_synonym thread_id = int
type_synonym int32 = "32 word"
type_synonym bigtime_t = "64 word"

definition B_OK :: status_t where
  "B_OK = 0"

definition B_ERROR :: status_t where
  "B_ERROR = - 1"

definition B_NO_MEMORY :: status_t where
  "B_NO_MEMORY = - 2147483648"

subsection \<open>Collaborators\<close>

text \<open>A spooled frame, as declared in \<^verbatim>\<open>FramesList.h\<close>.\<close>

record BitmapEntry =
  fFileName :: string
  fFrameTime :: bigtime_t

type_synonym FramesList = "BitmapEntry list"

text \<open>
  Modelled from the spec: \<^verbatim>\<open>FramesList::CountItems\<close> is declared in
  \<^verbatim>\<open>FramesList.h\<close> but its body is not part of the given sources. The spec
  describes it as \<^verbatim>\<open>Count() -> integer\<close>, the size of the sequence; the result
  type is \<^verbatim>\<open>int32\<close>.
\<close>

definition CountItems :: "FramesList \<Rightarrow> int32" where
  "CountItems fs = of_nat (length fs)"

text \<open>
  Modelled from the spec: \<^verbatim>\<open>FramesList::AddItem(BBitmap*, bigtime_t)\<close> is not
  part of the given sources. The spec describes it as
  \<^verbatim>\<open>Append(image, timestamp) -> bool\<close>, false on resource exhaustion; on success
  the entry is the new last element of the sequence. Whether the resources suffice is the
  first argument.
\<close>

definition AddItem :: "bool \<Rightarrow> BitmapEntry \<Rightarrow> FramesList \<Rightarrow> bool \<times> FramesList" where
  "AddItem ok entry fs = (if ok then (True, fs @ [entry]) else (False, fs))"

text \<open>
  \<^verbatim>\<open>BStopWatch\<close>: the elapsed time it reports, and whether it is suspended. The
  reading is a value of the model: the two calls of \<^verbatim>\<open>RecordTime\<close> in
  \<^verbatim>\<open>AverageFPS\<close> see the same one.
\<close>

record BStopWatch =
  ElapsedTime :: bigtime_t
  suspended :: bool

definition new_BStopWatch :: BStopWatch where
  "new_BStopWatch = \<lparr>ElapsedTime = 0, suspended = False\<rparr>"

definition Suspend :: "BStopWatch \<Rightarrow> BStopWatch" where
  "Suspend w = w\<lparr>suspended := True\<rparr>"

definition Resume :: "BStopWatch \<Rightarrow> BStopWatch" where
  "Resume w = w\<lparr>suspended := False\<rparr>"

text \<open>
  The messages the controller's looper acts on; \<^verbatim>\<open>kEncodingFinished\<close> carries the
  fields \<^verbatim>\<open>status\<close> and \<^verbatim>\<open>file_name\<close>.
\<close>

datatype message =
    kMsgGUIToggleCapture
  | kMsgGUITogglePause
  | kEncodingFinished status_t "string option"

text \<open>\<^verbatim>\<open>BMessageRunner(target, message, interval, count)\<close>.\<close>

record BMessageRunner =
  runner_message :: message
  runner_interval :: bigtime_t
  runner_count :: int

record media_codec_info =
  pretty_name :: string
  short_name :: string
  codec_id :: int

text \<open>The parts of \<^verbatim>\<open>MovieEncoder\<close> the controller sets.\<close>

record MovieEncoder =
  MediaCodecInfo :: "media_codec_info option"
  OutputFile :: string
  Source :: "FramesList option"
  cancelled :: bool

text \<open>The parts of the process-wide \<^verbatim>\<open>Settings::Current()\<close> the controller sets.\<close>

record Settings =
  OutputCodec :: string
  OutputFileName :: string

text \<open>The notices sent to observers, with the fields added to each message.\<close>

datatype notice =
    CaptureStarted
  | CaptureStopped "status_t option"
  | CapturePaused
  | CaptureResumed
  | EncodeStarted int32
  | EncodeFinished status_t "string option"
  | CodecChanged string

subsection \<open>The controller\<close>

record Controller =
  fCaptureThread :: thread_id
  fNumFrames :: int32
  fRecordWatch :: "BStopWatch option"
  fKillCaptureThread :: bool
  fPaused :: bool
  fEncoder :: MovieEncoder
  fEncoderThread :: thread_id
  fFileList :: "FramesList option"
  fCodecList :: "media_codec_info list option"
  fStopRunner :: "BMessageRunner option"
  fRequestedRecordTime :: bigtime_t
  settings :: Settings
  notices :: "notice list"

text \<open>The member initialisers of the constructor.\<close>

definition Controller_new :: "MovieEncoder \<Rightarrow> Settings \<Rightarrow> Controller" where
  "Controller_new enc st =
     \<lparr>fCaptureThread = - 1, fNumFrames = 0, fRecordWatch = None,
      fKillCaptureThread = True, fPaused = False, fEncoder = enc,
      fEncoderThread = - 1, fFileList = None, fCodecList = None,
      fStopRunner = None, fRequestedRecordTime = 0, settings = st, notices = []\<rparr>"

definition SendNotices :: "notice \<Rightarrow> Controller \<Rightarrow> Controller" where
  "SendNotices n c = c\<lparr>notices := notices c @ [n]\<rparr>"

datatype state = STATE_IDLE | STATE_RECORDING | STATE_ENCODING

definition State :: "Controller \<Rightarrow> state" where
  "State c =
     (if fCaptureThread c > 0 then STATE_RECORDING
      else if fEncoderThread c > 0 \<or> fFileList c \<noteq> None then STATE_ENCODING
      else STATE_IDLE)"

text \<open>\<^verbatim>\<open>QuitRequested\<close>, up to the call of the base class when it is true.\<close>

definition QuitRequested :: "Controller \<Rightarrow> bool" where
  "QuitRequested c = (fCaptureThread c < 0 \<and> fFileList c = None \<and> fEncoderThread c < 0)"

text \<open>
  What can go wrong in a member function: a member call through a null pointer, a C++
  \<^verbatim>\<open>throw\<close> of a status, and a join on a thread that does not leave its loop.
\<close>

datatype error = NullDereference | Thrown status_t | NoReturn

subsection \<open>Queries and simple setters\<close>

definition RecordedFrames :: "Controller \<Rightarrow> int32" where
  "RecordedFrames c = fNumFrames c"

definition RecordTime :: "Controller \<Rightarrow> bigtime_t" where
  "RecordTime c = (case fRecordWatch c of None \<Rightarrow> 0 | Some w \<Rightarrow> ElapsedTime w)"

definition SetRecordingTime :: "bigtime_t \<Rightarrow> Controller \<Rightarrow> Controller" where
  "SetRecordingTime msecs c =
     (if fCaptureThread c > 0 then c else c\<lparr>fRequestedRecordTime := msecs\<rparr>)"

text \<open>
  \<^verbatim>\<open>(RecordedFrames() * 1000000) / RecordTime()\<close>: the product is an
  \<^verbatim>\<open>int32\<close> times an \<^verbatim>\<open>int\<close> and is computed in 32 bits; it is then
  widened to the 64 bits of \<^verbatim>\<open>bigtime_t\<close> for the division, which truncates
  towards zero; the quotient is narrowed to the \<^verbatim>\<open>int32\<close> result.
\<close>

definition AverageFPS :: "Controller \<Rightarrow> int32" where
  "AverageFPS c =
     (if RecordTime c = 0 then 0
      else word_of_int (sint (RecordedFrames c * 1000000) sdiv sint (RecordTime c)))"

subsection \<open>Choosing the codec\<close>

text \<open>The body of the \<^verbatim>\<open>for\<close> loop of \<^verbatim>\<open>SetMediaCodec\<close>, with its \<^verbatim>\<open>break\<close>.\<close>

definition apply_codec :: "media_codec_info \<Rightarrow> Controller \<Rightarrow> Controller" where
  "apply_codec codec c =
     SendNotices (CodecChanged (pretty_name codec))
       (c\<lparr>fEncoder := (fEncoder c)\<lparr>MediaCodecInfo := Some codec\<rparr>,
          settings := (settings c)\<lparr>OutputCodec := pretty_name codec\<rparr>\<rparr>)"

fun SetMediaCodec_loop :: "media_codec_info list \<Rightarrow> string \<Rightarrow> Controller \<Rightarrow> Controller" where
  "SetMediaCodec_loop [] codecName c = c"
| "SetMediaCodec_loop (codec # rest) codecName c =
     (if pretty_name codec = codecName then apply_codec codec c
      else SetMediaCodec_loop rest codecName c)"

definition SetMediaCodec :: "string \<Rightarrow> Controller \<Rightarrow> error + Controller" where
  "SetMediaCodec codecName c =
     (case fCodecList c of
        None \<Rightarrow> Inl NullDereference
      | Some codecs \<Rightarrow> Inr (SetMediaCodec_loop codecs codecName c))"

subsection \<open>Starting a recording\<close>

text \<open>
  What \<^verbatim>\<open>StartCapture\<close> gets from outside: whether \<^verbatim>\<open>new FramesList()\<close>
  throws (and which status), the result of \<^verbatim>\<open>spawn_thread\<close> and the result of
  \<^verbatim>\<open>resume_thread\<close>.

  Modelled from the spec: the constructor of \<^verbatim>\<open>FramesList\<close> is not part of the
  given sources. By the spec a start constructs a fresh frame store, and the failure to
  allocate its backing storage is reported; so a constructed store holds no frame, and a
  failure is the \<^verbatim>\<open>status_t\<close> that \<^verbatim>\<open>StartCapture\<close> catches.
\<close>

record start_env =
  new_FramesList :: "status_t option"
  spawn_thread :: thread_id
  resume_thread :: status_t

definition arm_stop_runner :: "Controller \<Rightarrow> Controller" where
  "arm_stop_runner c =
     (if fRequestedRecordTime c \<noteq> 0
      then c\<lparr>fStopRunner :=
               Some \<lparr>runner_message = kMsgGUIToggleCapture,
                     runner_interval = fRequestedRecordTime c, runner_count = 1\<rparr>,
             fRequestedRecordTime := 0\<rparr>
      else c)"

definition StartCapture_spawn :: "start_env \<Rightarrow> Controller \<Rightarrow> Controller" where
  "StartCapture_spawn env c =
     (let c2 = c\<lparr>fKillCaptureThread := False, fPaused := False,
                 fCaptureThread := spawn_thread env\<rparr>
      in if fCaptureThread c2 < 0
         then SendNotices (CaptureStopped (Some (fCaptureThread c2))) c2
         else if resume_thread env < B_OK
         then SendNotices (CaptureStopped (Some (resume_thread env))) c2
         else SendNotices CaptureStarted
                (arm_stop_runner (c2\<lparr>fRecordWatch := Some new_BStopWatch, fStopRunner := None\<rparr>)))"

definition StartCapture :: "start_env \<Rightarrow> Controller \<Rightarrow> Controller" where
  "StartCapture env c =
     (let c1 = c\<lparr>fNumFrames := 0\<rparr>
      in case fFileList c1 of
           Some fs \<Rightarrow> StartCapture_spawn env c1
         | None \<Rightarrow>
             (case new_FramesList env of
                Some err \<Rightarrow> SendNotices (CaptureStopped (Some err)) c1
              | None \<Rightarrow> StartCapture_spawn env (c1\<lparr>fFileList := Some []\<rparr>)))"

text \<open>The start went through: the capture thread exists and runs.\<close>

definition started :: "start_env \<Rightarrow> bool" where
  "started env = (new_FramesList env = None \<and> 0 < spawn_thread env \<and> \<not> resume_thread env < B_OK)"

subsection \<open>The capture thread\<close>

text \<open>
  One turn of the \<^verbatim>\<open>while\<close> loop of \<^verbatim>\<open>CaptureThread\<close> is taken as one
  step: the controller's commands run between turns, not inside one. What a turn gets from
  outside is the status of \<^verbatim>\<open>ReadBitmap\<close>, whether the frame store has the
  resources to take the frame, and the entry it would store. The thread's local variable
  \<^verbatim>\<open>error\<close> is passed along explicitly; it starts as \<open>B_ERROR\<close>.
\<close>

record frame_env =
  ReadBitmap :: status_t
  AddItem_ok :: bool
  frame :: BitmapEntry

datatype loop_state =
    InLoop status_t Controller
  | LoopExit status_t Controller
  | Fault

definition CaptureThread_iteration :: "frame_env \<Rightarrow> status_t \<Rightarrow> Controller \<Rightarrow> loop_state" where
  "CaptureThread_iteration env error c =
     (if fKillCaptureThread c then LoopExit error c
      else if \<not> fPaused c then
        (let error = ReadBitmap env
         in if error \<noteq> B_OK then LoopExit error c
            else case fFileList c of
                   None \<Rightarrow> Fault
                 | Some fs \<Rightarrow>
                     (case AddItem (AddItem_ok env) (frame env) fs of
                        (False, fs') \<Rightarrow> LoopExit B_NO_MEMORY (c\<lparr>fFileList := Some fs'\<rparr>)
                      | (True, fs') \<Rightarrow>
                          InLoop error (c\<lparr>fFileList := Some fs', fNumFrames := fNumFrames c + 1\<rparr>)))
      else InLoop error c)"

text \<open>
  The same turn stopped after \<^verbatim>\<open>AddItem\<close>, before
  \<^verbatim>\<open>atomic_add(&fNumFrames, 1)\<close>: the two are separate statements, and the
  controller's thread can look at the members between them.
\<close>

datatype turn_state =
    Appended status_t Controller
  | Snoozed status_t Controller
  | Left status_t Controller
  | Faulted

definition CaptureThread_append :: "frame_env \<Rightarrow> status_t \<Rightarrow> Controller \<Rightarrow> turn_state" where
  "CaptureThread_append env error c =
     (if fKillCaptureThread c then Left error c
      else if \<not> fPaused c then
        (let error = ReadBitmap env
         in if error \<noteq> B_OK then Left error c
            else case fFileList c of
                   None \<Rightarrow> Faulted
                 | Some fs \<Rightarrow>
                     (case AddItem (AddItem_ok env) (frame env) fs of
                        (False, fs') \<Rightarrow> Left B_NO_MEMORY (c\<lparr>fFileList := Some fs'\<rparr>)
                      | (True, fs') \<Rightarrow> Appended error (c\<lparr>fFileList := Some fs'\<rparr>)))
      else Snoozed error c)"

definition atomic_add_fNumFrames :: "Controller \<Rightarrow> Controller" where
  "atomic_add_fNumFrames c = c\<lparr>fNumFrames := fNumFrames c + 1\<rparr>"

fun CaptureThread_loop :: "frame_env list \<Rightarrow> status_t \<Rightarrow> Controller \<Rightarrow> loop_state" where
  "CaptureThread_loop [] error c =
     (if fKillCaptureThread c then LoopExit error c else InLoop error c)"
| "CaptureThread_loop (env # envs) error c =
     (case CaptureThread_iteration env error c of
        InLoop error' c' \<Rightarrow> CaptureThread_loop envs error' c'
      | LoopExit error' c' \<Rightarrow> LoopExit error' c'
      | Fault \<Rightarrow> Fault)"

text \<open>What the thread does after the loop.\<close>

definition CaptureThread_exit :: "status_t \<Rightarrow> Controller \<Rightarrow> Controller" where
  "CaptureThread_exit error c =
     (let c1 = c\<lparr>fCaptureThread := - 1, fKillCaptureThread := True\<rparr>
      in if error \<noteq> B_OK
         then (SendNotices (CaptureStopped (Some error)) c1)\<lparr>fFileList := None\<rparr>
         else c1)"

text \<open>
  The whole thread function on a script of turns: \<open>Inl NoReturn\<close> when the script ends
  with the thread still in its loop.
\<close>

definition CaptureThread :: "frame_env list \<Rightarrow> Controller \<Rightarrow> error + Controller" where
  "CaptureThread envs c =
     (case CaptureThread_loop envs B_ERROR c of
        LoopExit error c' \<Rightarrow> Inr (CaptureThread_exit error c')
      | InLoop error c' \<Rightarrow> Inl NoReturn
      | Fault \<Rightarrow> Inl NullDereference)"

text \<open>
  \<^verbatim>\<open>wait_for_thread(fCaptureThread, ...)\<close>. The first argument says whether the
  thread named by the handle is alive. \<open>None\<close>: there is no such thread any more (it was
  killed with \<^verbatim>\<open>kill_thread\<close>, as \<^verbatim>\<open>StartCapture\<close> does when
  \<^verbatim>\<open>resume_thread\<close> fails, keeping the handle); the call returns at once and
  nothing changes. \<open>Some error\<close>: the capture thread is alive and its local
  \<^verbatim>\<open>error\<close> has this value; it goes on from its next test of the loop condition
  until it returns.
\<close>

definition wait_for_thread :: "status_t option \<Rightarrow> Controller \<Rightarrow> error + Controller" where
  "wait_for_thread thread c =
     (case thread of
        None \<Rightarrow> Inr c
      | Some error \<Rightarrow>
          (case CaptureThread_loop [] error c of
             LoopExit error' c' \<Rightarrow> Inr (CaptureThread_exit error' c')
           | InLoop error' c' \<Rightarrow> Inl NoReturn
           | Fault \<Rightarrow> Inl NullDereference))"

subsection \<open>Pausing\<close>

definition PauseCapture :: "Controller \<Rightarrow> error + Controller" where
  "PauseCapture c =
     (let c1 = SendNotices CapturePaused c
      in case fRecordWatch c1 of
           None \<Rightarrow> Inl NullDereference
         | Some w \<Rightarrow> Inr (c1\<lparr>fRecordWatch := Some (Suspend w), fPaused := True\<rparr>))"

definition ResumeCapture :: "Controller \<Rightarrow> error + Controller" where
  "ResumeCapture c =
     (let c1 = c\<lparr>fPaused := False\<rparr>
      in case fRecordWatch c1 of
           None \<Rightarrow> Inl NullDereference
         | Some w \<Rightarrow> Inr (SendNotices CaptureResumed (c1\<lparr>fRecordWatch := Some (Resume w)\<rparr>)))"

definition TogglePause :: "Controller \<Rightarrow> error + Controller" where
  "TogglePause c =
     (if fCaptureThread c < 0 then Inr c
      else if fPaused c then ResumeCapture c
      else PauseCapture c)"

text \<open>
  A recording in progress: turns of the capture thread's loop, interleaved with
  \<^verbatim>\<open>TogglePause\<close> commands of the controller's own thread.
\<close>

datatype event = Turn frame_env | Pause

fun recording :: "event list \<Rightarrow> status_t \<Rightarrow> Controller \<Rightarrow> loop_state" where
  "recording [] error c = InLoop error c"
| "recording (Turn env # evs) error c =
     (case CaptureThread_iteration env error c of
        InLoop error' c' \<Rightarrow> recording evs error' c'
      | LoopExit error' c' \<Rightarrow> LoopExit error' c'
      | Fault \<Rightarrow> Fault)"
| "recording (Pause # evs) error c =
     (case TogglePause c of
        Inl e \<Rightarrow> Fault
      | Inr c' \<Rightarrow> recording evs error c')"

subsection \<open>Ending a recording and encoding\<close>

text \<open>
  \<^verbatim>\<open>_EncodingFinished(status, fileName)\<close>. The first argument is the path of
  \<^verbatim>\<open>destFile\<close> once the function has computed it from the settings and the
  file system; moving the file is not modelled.
\<close>

definition EncodingFinished :: "string \<Rightarrow> status_t \<Rightarrow> string option \<Rightarrow> Controller \<Rightarrow> Controller" where
  "EncodingFinished destFile status fileName c =
     SendNotices
       (EncodeFinished status (case fileName of None \<Rightarrow> None | Some f \<Rightarrow> Some destFile))
       (c\<lparr>fEncoderThread := - 1, fNumFrames := 0\<rparr>)"

text \<open>
  What \<^verbatim>\<open>EncodeMovie\<close> gets from outside: the status of
  \<^verbatim>\<open>find_directory\<close>, the descriptor returned by \<^verbatim>\<open>mkstemp\<close>
  with \<^verbatim>\<open>errno\<close> and the name it chose, the thread returned by
  \<^verbatim>\<open>EncodeThreaded\<close>, and the destination path.
\<close>

record encode_env =
  find_directory :: status_t
  mkstemp :: int
  errno :: int
  tempFileName :: string
  EncodeThreaded :: thread_id
  destFile :: string

definition EncodeMovie :: "encode_env \<Rightarrow> Controller \<Rightarrow> error + Controller" where
  "EncodeMovie env c =
     (case fFileList c of
        None \<Rightarrow> Inl NullDereference
      | Some fs \<Rightarrow>
          (let numFrames = CountItems fs
           in if numFrames \<le>s 0
              then Inr ((EncodingFinished (destFile env) B_ERROR None c)\<lparr>fFileList := None\<rparr>)
              else if find_directory env \<noteq> B_OK then Inl (Thrown (find_directory env))
              else if mkstemp env < 0 then Inl (Thrown (errno env))
              else
                (let c1 = c\<lparr>fEncoder := (fEncoder c)\<lparr>OutputFile := tempFileName env\<rparr>\<rparr>;
                     c2 = SendNotices (EncodeStarted numFrames) c1;
                     c3 = c2\<lparr>fEncoder := (fEncoder c2)\<lparr>Source := Some fs\<rparr>, fFileList := None\<rparr>
                 in Inr (c3\<lparr>fEncoderThread := EncodeThreaded env\<rparr>))))"

definition EndCapture :: "encode_env \<Rightarrow> status_t option \<Rightarrow> Controller \<Rightarrow> error + Controller" where
  "EndCapture env thread c =
     (case (if fCaptureThread c > 0
            then wait_for_thread thread (c\<lparr>fPaused := False, fKillCaptureThread := True\<rparr>)
            else Inr c) of
        Inl e \<Rightarrow> Inl e
      | Inr c1 \<Rightarrow>
          (case fRecordWatch c1 of
             None \<Rightarrow> Inl NullDereference
           | Some w \<Rightarrow>
               EncodeMovie env
                 (SendNotices (CaptureStopped None) (c1\<lparr>fRecordWatch := Some (Suspend w)\<rparr>))))"

subsection \<open>The commands\<close>

text \<open>
  \<^verbatim>\<open>Cancel\<close>, \<^verbatim>\<open>EndCapture\<close> and \<^verbatim>\<open>ToggleCapture\<close> take,
  besides the environment, the argument of \<open>wait_for_thread\<close>: the local
  \<^verbatim>\<open>error\<close> of the capture thread if one is alive, \<open>None\<close> if none is. It
  matters only when the capture thread is joined.
\<close>

definition Cancel :: "status_t option \<Rightarrow> Controller \<Rightarrow> error + Controller" where
  "Cancel thread c =
     (case State c of
        STATE_RECORDING \<Rightarrow>
          (case wait_for_thread thread (c\<lparr>fKillCaptureThread := True\<rparr>) of
             Inl e \<Rightarrow> Inl e
           | Inr c1 \<Rightarrow> Inr (c1\<lparr>fCaptureThread := - 1\<rparr>))
      | STATE_ENCODING \<Rightarrow>
          Inr (c\<lparr>fEncoder := (fEncoder c)\<lparr>cancelled := True\<rparr>, fEncoderThread := - 1\<rparr>)
      | STATE_IDLE \<Rightarrow> Inr c)"

definition ToggleCapture :: "start_env \<Rightarrow> encode_env \<Rightarrow> status_t option \<Rightarrow> Controller \<Rightarrow> error + Controller" where
  "ToggleCapture senv eenv thread c =
     (case State c of
        STATE_IDLE \<Rightarrow> Inr (StartCapture senv c)
      | STATE_RECORDING \<Rightarrow> EndCapture eenv thread c
      | STATE_ENCODING \<Rightarrow> Inr c)"

text \<open>
  \<^verbatim>\<open>MessageReceived\<close> for the messages that reach the members modelled here
  (\<^verbatim>\<open>kSelectionWindowClosed\<close> and \<^verbatim>\<open>kEncodingProgress\<close> are left out).
  The encoder's terminal message is handled whatever the state is.
\<close>

definition MessageReceived ::
    "start_env \<Rightarrow> encode_env \<Rightarrow> status_t option \<Rightarrow> message \<Rightarrow> Controller \<Rightarrow> error + Controller" where
  "MessageReceived senv eenv thread msg c =
     (case msg of
        kMsgGUIToggleCapture \<Rightarrow> ToggleCapture senv eenv thread c
      | kMsgGUITogglePause \<Rightarrow> TogglePause c
      | kEncodingFinished status fileName \<Rightarrow>
          Inr (EncodingFinished (destFile eenv) status fileName c))"

section \<open>Concrete sessions\<close>

text \<open>Concrete controllers and environments on which the theorems below are instantiated.\<close>

definition example_encoder :: MovieEncoder where
  "example_encoder = \<lparr>MediaCodecInfo = None, OutputFile = [], Source = None, cancelled = False\<rparr>"

definition example_settings :: Settings where
  "example_settings = \<lparr>OutputCodec = [], OutputFileName = ''clip''\<rparr>"

definition idle0 :: Controller where
  "idle0 = Controller_new example_encoder example_settings"

definition start_ok :: start_env where
  "start_ok = \<lparr>new_FramesList = None, spawn_thread = 42, resume_thread = 0\<rparr>"

definition frame_ok :: frame_env where
  "frame_ok = \<lparr>ReadBitmap = 0, AddItem_ok = True,
                frame = \<lparr>fFileName = ''frame'', fFrameTime = 7\<rparr>\<rparr>"

definition encode_ok :: encode_env where
  "encode_ok = \<lparr>find_directory = 0, mkstemp = 3, errno = 0, tempFileName = ''tmp'',
                 EncodeThreaded = 43, destFile = ''clip''\<rparr>"

definition encoding0 :: Controller where
  "encoding0 = idle0\<lparr>fEncoderThread := 43\<rparr>"

definition codec_a :: media_codec_info where
  "codec_a = \<lparr>pretty_name = ''Theora'', short_name = ''theora'', codec_id = 1\<rparr>"

definition codec_b :: media_codec_info where
  "codec_b = \<lparr>pretty_name = ''MPEG4'', short_name = ''mpeg4'', codec_id = 2\<rparr>"

definition codec_c :: media_codec_info where
  "codec_c = \<lparr>pretty_name = ''MPEG4'', short_name = ''mpeg4b'', codec_id = 3\<rparr>"

definition with_codecs :: Controller where
  "with_codecs = idle0\<lparr>fCodecList := Some [codec_a, codec_b, codec_c]\<rparr>"

text \<open>A turn on which the screen cannot be read, and a start on which the store cannot be allocated.\<close>

definition frame_unreadable :: frame_env where
  "frame_unreadable = \<lparr>ReadBitmap = - 1, AddItem_ok = True,
                        frame = \<lparr>fFileName = ''frame'', fFrameTime = 9\<rparr>\<rparr>"

definition start_no_memory :: start_env where
  "start_no_memory = \<lparr>new_FramesList = Some (- 2147483648), spawn_thread = 42, resume_thread = 0\<rparr>"

text \<open>
  The controller after one frame was stored and the next read failed; while one frame is
  stored; after that recording was cancelled; and with two frames stored around a pause.
\<close>

definition after_failed_recording :: Controller where
  "after_failed_recording =
     idle0\<lparr>fNumFrames := 1, fRecordWatch := Some new_BStopWatch,
           notices := [CaptureStarted, CaptureStopped (Some (- 1))]\<rparr>"

definition one_frame :: Controller where
  "one_frame =
     idle0\<lparr>fCaptureThread := 42, fNumFrames := 1, fRecordWatch := Some new_BStopWatch,
           fKillCaptureThread := False, fFileList := Some [frame frame_ok],
           notices := [CaptureStarted]\<rparr>"

definition cancelled_recording :: Controller where
  "cancelled_recording = one_frame\<lparr>fCaptureThread := - 1, fKillCaptureThread := True\<rparr>"

definition two_frames_paused_between :: Controller where
  "two_frames_paused_between =
     idle0\<lparr>fCaptureThread := 42, fNumFrames := 2, fRecordWatch := Some new_BStopWatch,
           fKillCaptureThread := False, fFileList := Some [frame frame_ok, frame frame_ok],
           notices := [CaptureStarted, CapturePaused, CaptureResumed]\<rparr>"

text \<open>
  A second session: the first frame of a recording appended but not yet counted; that
  recording toggled off and being encoded; the encoding cancelled; a new recording with one
  frame stored; and the same after the cancelled encoder's terminal message was handled.
\<close>

definition appended_not_counted :: Controller where
  "appended_not_counted = one_frame\<lparr>fNumFrames := 0\<rparr>"

definition encoding_one :: Controller where
  "encoding_one =
     idle0\<lparr>fNumFrames := 1, fRecordWatch := Some (Suspend new_BStopWatch),
           fEncoder := example_encoder\<lparr>OutputFile := ''tmp'', Source := Some [frame frame_ok]\<rparr>,
           fEncoderThread := 43,
           notices := [CaptureStarted, CaptureStopped None, EncodeStarted 1]\<rparr>"

definition encoding_cancelled :: Controller where
  "encoding_cancelled =
     encoding_one\<lparr>fEncoder := (fEncoder encoding_one)\<lparr>cancelled := True\<rparr>, fEncoderThread := - 1\<rparr>"

definition second_recording :: Controller where
  "second_recording =
     encoding_cancelled\<lparr>fCaptureThread := 42, fNumFrames := 1,
       fRecordWatch := Some new_BStopWatch, fKillCaptureThread := False,
       fFileList := Some [frame frame_ok],
       notices := [CaptureStarted, CaptureStopped None, EncodeStarted 1, CaptureStarted]\<rparr>"

definition stale_finish :: Controller where
  "stale_finish =
     second_recording\<lparr>fNumFrames := 0,
       notices := [CaptureStarted, CaptureStopped None, EncodeStarted 1, CaptureStarted,
                   EncodeFinished (- 1) None]\<rparr>"

text \<open>A start on which \<^verbatim>\<open>resume_thread\<close> fails.\<close>

definition start_resume_fails :: start_env where
  "start_resume_fails = \<lparr>new_FramesList = None, spawn_thread = 42, resume_thread = - 1\<rparr>"

text \<open>A hundred seconds of recording at thirty frames per second.\<close>

definition long_recording :: Controller where
  "long_recording =
     idle0\<lparr>fNumFrames := 3000,
           fRecordWatch := Some \<lparr>ElapsedTime = 100000000, suspended = True\<rparr>\<rparr>"

section \<open>The invariant of a recording in progress\<close>

text \<open>
  What holds between the turns of the capture thread of a recording started from Idle:
  the thread handle is live, no kill is requested, the stopwatch exists, the counter is the
  size of the store, and the thread's \<^verbatim>\<open>error\<close> is \<open>B_OK\<close> exactly when a frame
  has been stored and still its initial \<open>B_ERROR\<close> exactly when none has.
\<close>

definition recording_inv :: "status_t \<Rightarrow> Controller \<Rightarrow> bool" where
  "recording_inv error c =
     (0 < fCaptureThread c \<and> \<not> fKillCaptureThread c \<and> fRecordWatch c \<noteq> None \<and>
      (case fFileList c of
         None \<Rightarrow> False
       | Some fs \<Rightarrow> fNumFrames c = CountItems fs \<and> (error = B_OK) = (fs \<noteq> []) \<and> (error = B_ERROR) = (fs = [])))"

section \<open>Starting and joining the capture thread\<close>

lemma B_OK_neq_B_ERROR: "B_OK \<noteq> B_ERROR"
  by (simp add: B_OK_def B_ERROR_def)

lemma wait_for_thread_killed:
  "fKillCaptureThread c \<Longrightarrow> wait_for_thread (Some error) c = Inr (CaptureThread_exit error c)"
  by (simp add: wait_for_thread_def)

lemma wait_for_thread_dead: "wait_for_thread None c = Inr c"
  by (simp add: wait_for_thread_def)

text \<open>
  Ending a recording whose thread was killed: nothing is joined, the handle stays, and
  \<open>State\<close> goes on reporting Recording.
\<close>

lemma EndCapture_dead_thread:
  assumes "0 < fCaptureThread c" "fRecordWatch c = Some w" "fFileList c = Some []"
  shows "\<exists>c'. EndCapture env None c = Inr c' \<and> fCaptureThread c' = fCaptureThread c \<and>
           State c' = STATE_RECORDING \<and> fFileList c' = None \<and>
           notices c' = notices c @ [CaptureStopped None, EncodeFinished B_ERROR None]"
  using assms
  by (simp add: EndCapture_def wait_for_thread_dead EncodeMovie_def CountItems_def
      EncodingFinished_def SendNotices_def State_def)

lemma Cancel_Recording:
  "State c = STATE_RECORDING \<Longrightarrow>
   Cancel (Some error) c =
     Inr ((CaptureThread_exit error (c\<lparr>fKillCaptureThread := True\<rparr>))\<lparr>fCaptureThread := - 1\<rparr>)"
  by (simp add: Cancel_def wait_for_thread_killed)

lemma Cancel_Recording_no_frame:
  assumes "State c = STATE_RECORDING" "error \<noteq> B_OK" "\<not> 0 < fEncoderThread c"
  shows "\<exists>c'. Cancel (Some error) c = Inr c' \<and> fFileList c' = None \<and> State c' = STATE_IDLE \<and>
           Source (fEncoder c') = Source (fEncoder c)"
  using assms
  by (simp add: Cancel_Recording CaptureThread_exit_def SendNotices_def State_def Let_def)

lemma StartCapture_spawn_started:
  "0 < spawn_thread env \<Longrightarrow> \<not> resume_thread env < B_OK \<Longrightarrow>
   StartCapture_spawn env c =
     SendNotices CaptureStarted
       (arm_stop_runner (c\<lparr>fKillCaptureThread := False, fPaused := False,
          fCaptureThread := spawn_thread env, fRecordWatch := Some new_BStopWatch,
          fStopRunner := None\<rparr>))"
  by (simp add: StartCapture_spawn_def Let_def)

lemma StartCapture_started:
  assumes "started env"
  shows "fCaptureThread (StartCapture env c) = spawn_thread env"
    and "fNumFrames (StartCapture env c) = 0"
    and "fFileList (StartCapture env c) = Some (case fFileList c of None \<Rightarrow> [] | Some fs \<Rightarrow> fs)"
    and "fKillCaptureThread (StartCapture env c) = False"
    and "fPaused (StartCapture env c) = False"
    and "fRecordWatch (StartCapture env c) = Some new_BStopWatch"
    and "fEncoderThread (StartCapture env c) = fEncoderThread c"
    and "fRequestedRecordTime (StartCapture env c) = 0"
    and "fStopRunner (StartCapture env c) =
        (if fRequestedRecordTime c = 0 then None
         else Some \<lparr>runner_message = kMsgGUIToggleCapture,
                    runner_interval = fRequestedRecordTime c, runner_count = 1\<rparr>)"
    and "notices (StartCapture env c) = notices c @ [CaptureStarted]"
  using assms
  by (simp_all add: StartCapture_def started_def StartCapture_spawn_started SendNotices_def
      arm_stop_runner_def Let_def split: option.split)

section \<open>Facts about the concrete sessions\<close>

lemmas example_defs = idle0_def Controller_new_def example_encoder_def example_settings_def
  start_ok_def frame_ok_def encode_ok_def frame_unreadable_def start_no_memory_def
  after_failed_recording_def one_frame_def cancelled_recording_def two_frames_paused_between_def
  new_BStopWatch_def

lemmas session_defs = appended_not_counted_def encoding_one_def encoding_cancelled_def
  second_recording_def stale_finish_def

lemma StartCapture_resume_fails:
  "fCaptureThread (StartCapture start_resume_fails after_failed_recording) = 42 \<and>
   State (StartCapture start_resume_fails after_failed_recording) = STATE_RECORDING \<and>
   fFileList (StartCapture start_resume_fails after_failed_recording) = Some [] \<and>
   fRecordWatch (StartCapture start_resume_fails after_failed_recording) = Some new_BStopWatch"
  by (simp add: StartCapture_def StartCapture_spawn_def SendNotices_def State_def Let_def
      start_resume_fails_def after_failed_recording_def idle0_def Controller_new_def B_OK_def)

lemma ToggleCapture_killed_thread:
  "\<exists>c'. ToggleCapture start_ok encode_ok None
          (StartCapture start_resume_fails after_failed_recording) = Inr c' \<and>
        fCaptureThread c' = 42 \<and> State c' = STATE_RECORDING \<and> fFileList c' = None \<and>
        notices c' =
          notices (StartCapture start_resume_fails after_failed_recording) @
            [CaptureStopped None, EncodeFinished B_ERROR None]"
proof -
  let ?c = "StartCapture start_resume_fails after_failed_recording"
  from StartCapture_resume_fails
  have t: "fCaptureThread ?c = 42" and r: "State ?c = STATE_RECORDING"
    and f: "fFileList ?c = Some []" and w: "fRecordWatch ?c = Some new_BStopWatch"
    by blast+
  from t have p: "0 < fCaptureThread ?c" by simp
  from EndCapture_dead_thread [OF p w f, of encode_ok] t
  show ?thesis by (simp add: ToggleCapture_def r)
qed

lemma StartCapture_start_ok:
  "StartCapture start_ok idle0 =
     idle0\<lparr>fCaptureThread := 42, fRecordWatch := Some new_BStopWatch,
           fKillCaptureThread := False, fFileList := Some [], notices := [CaptureStarted]\<rparr>"
  by (simp add: example_defs StartCapture_def StartCapture_spawn_def arm_stop_runner_def
      SendNotices_def B_OK_def Let_def)

lemma failed_recording:
  "CaptureThread [frame_ok, frame_unreadable] (StartCapture start_ok idle0) = Inr after_failed_recording"
  by (simp add: StartCapture_start_ok)
     (simp add: example_defs CaptureThread_def CaptureThread_iteration_def CaptureThread_exit_def
        AddItem_def SendNotices_def B_OK_def B_ERROR_def Let_def)

lemma started_start_ok: "started start_ok"
  by (simp add: started_def start_ok_def B_OK_def)

lemma State_idle0: "State idle0 = STATE_IDLE"
  by (simp add: State_def idle0_def Controller_new_def)

section \<open>The derived session state\<close>

text \<open>
  C2. The session state is derived from the three handles: \<open>State\<close> reports Recording
  exactly when the capture-thread handle is positive; otherwise Encoding exactly when the
  encode-thread handle is positive or the frame-store handle is non-null; and Idle exactly
  when none of the three is live.
\<close>

theorem State_derived:
  "((State c = STATE_RECORDING) = (fCaptureThread c > 0)) \<and>
   ((State c = STATE_ENCODING) =
      (\<not> fCaptureThread c > 0 \<and> (fEncoderThread c > 0 \<or> fFileList c \<noteq> None))) \<and>
   ((State c = STATE_IDLE) =
      (\<not> fCaptureThread c > 0 \<and> \<not> fEncoderThread c > 0 \<and> fFileList c = None))"
  by (simp add: State_def)

section \<open>Toggling while encoding\<close>

text \<open>
  C8. \<open>ToggleCapture\<close> called while the state is Encoding returns the controller as it
  was: no member changes, no thread is spawned or joined, no notice is sent.
\<close>

theorem ToggleCapture_Encoding_noop:
  "State c = STATE_ENCODING \<Longrightarrow> ToggleCapture senv eenv thread c = Inr c"
  by (simp add: ToggleCapture_def)

theorem ToggleCapture_Encoding_noop_witness:
  "State encoding0 = STATE_ENCODING \<and> ToggleCapture start_ok encode_ok None encoding0 = Inr encoding0"
proof -
  have h: "State encoding0 = STATE_ENCODING"
    by (simp add: encoding0_def idle0_def Controller_new_def State_def)
  show ?thesis using h ToggleCapture_Encoding_noop [OF h] by simp
qed

section \<open>Choosing the codec by name\<close>

lemma SetMediaCodec_loop_no_match:
  "codecName \<notin> pretty_name ` set codecs \<Longrightarrow> SetMediaCodec_loop codecs codecName c = c"
  by (induction codecs) auto

lemma SetMediaCodec_loop_match:
  "find (\<lambda>codec. pretty_name codec = codecName) codecs = Some codec \<Longrightarrow>
     SetMediaCodec_loop codecs codecName c = apply_codec codec c"
  by (induction codecs) (auto split: if_splits)

text \<open>
  C10. \<open>SetMediaCodec\<close> with a name that is the pretty name of no entry of the codec list
  changes nothing (encoder, settings and notices are as before). With a name that matches,
  the first matching entry, and only that one, is given to the encoder, its name is stored
  in the settings, and a single CodecChanged notice is sent.
\<close>

theorem SetMediaCodec_exact_match:
  "fCodecList c = Some codecs \<Longrightarrow>
     (codecName \<notin> pretty_name ` set codecs \<longrightarrow> SetMediaCodec codecName c = Inr c) \<and>
     (codecName \<in> pretty_name ` set codecs \<longrightarrow>
        (\<exists>codec \<in> set codecs. pretty_name codec = codecName \<and>
           find (\<lambda>k. pretty_name k = codecName) codecs = Some codec \<and>
           SetMediaCodec codecName c =
             Inr (c\<lparr>fEncoder := (fEncoder c)\<lparr>MediaCodecInfo := Some codec\<rparr>,
                    settings := (settings c)\<lparr>OutputCodec := codecName\<rparr>,
                    notices := notices c @ [CodecChanged codecName]\<rparr>)))"
proof (intro conjI impI)
  assume l: "fCodecList c = Some codecs"
  { assume "codecName \<notin> pretty_name ` set codecs"
    then show "SetMediaCodec codecName c = Inr c"
      using l by (simp add: SetMediaCodec_def SetMediaCodec_loop_no_match) }
  { assume "codecName \<in> pretty_name ` set codecs"
    then have "\<exists>x. x \<in> set codecs \<and> pretty_name x = codecName" by auto
    then obtain codec where f: "find (\<lambda>k. pretty_name k = codecName) codecs = Some codec"
      by (cases "find (\<lambda>k. pretty_name k = codecName) codecs") (auto simp: find_None_iff)
    then have m: "codec \<in> set codecs" "pretty_name codec = codecName"
      by (auto simp: find_Some_iff)
    have "SetMediaCodec codecName c = Inr (apply_codec codec c)"
      using l f by (simp add: SetMediaCodec_def SetMediaCodec_loop_match)
    with m f show "\<exists>codec \<in> set codecs. pretty_name codec = codecName \<and>
           find (\<lambda>k. pretty_name k = codecName) codecs = Some codec \<and>
           SetMediaCodec codecName c =
             Inr (c\<lparr>fEncoder := (fEncoder c)\<lparr>MediaCodecInfo := Some codec\<rparr>,
                    settings := (settings c)\<lparr>OutputCodec := codecName\<rparr>,
                    notices := notices c @ [CodecChanged codecName]\<rparr>)"
      by (auto simp: apply_codec_def SendNotices_def) }
qed

theorem SetMediaCodec_exact_match_witness:
  "fCodecList with_codecs = Some [codec_a, codec_b, codec_c] \<and>
   ''mpeg4'' \<notin> pretty_name ` set [codec_a, codec_b, codec_c] \<and>
   SetMediaCodec ''mpeg4'' with_codecs = Inr with_codecs \<and>
   ''MPEG4'' \<in> pretty_name ` set [codec_a, codec_b, codec_c] \<and>
   SetMediaCodec ''MPEG4'' with_codecs =
     Inr (with_codecs\<lparr>fEncoder := (fEncoder with_codecs)\<lparr>MediaCodecInfo := Some codec_b\<rparr>,
            settings := (settings with_codecs)\<lparr>OutputCodec := ''MPEG4''\<rparr>,
            notices := notices with_codecs @ [CodecChanged ''MPEG4'']\<rparr>)"
proof -
  have l: "fCodecList with_codecs = Some [codec_a, codec_b, codec_c]"
    by (simp add: with_codecs_def)
  have n: "''mpeg4'' \<notin> pretty_name ` set [codec_a, codec_b, codec_c]"
    by (simp add: codec_a_def codec_b_def codec_c_def)
  have m: "''MPEG4'' \<in> pretty_name ` set [codec_a, codec_b, codec_c]"
    by (simp add: codec_a_def codec_b_def codec_c_def)
  have f: "find (\<lambda>k. pretty_name k = ''MPEG4'') [codec_a, codec_b, codec_c] = Some codec_b"
    by (simp add: codec_a_def codec_b_def codec_c_def)
  from SetMediaCodec_exact_match [OF l, of "''mpeg4''"] n
  have 1: "SetMediaCodec ''mpeg4'' with_codecs = Inr with_codecs" by blast
  from SetMediaCodec_exact_match [OF l, of "''MPEG4''"] m
  obtain codec where
    c: "find (\<lambda>k. pretty_name k = ''MPEG4'') [codec_a, codec_b, codec_c] = Some codec" and
    e: "SetMediaCodec ''MPEG4'' with_codecs =
     Inr (with_codecs\<lparr>fEncoder := (fEncoder with_codecs)\<lparr>MediaCodecInfo := Some codec\<rparr>,
            settings := (settings with_codecs)\<lparr>OutputCodec := ''MPEG4''\<rparr>,
            notices := notices with_codecs @ [CodecChanged ''MPEG4'']\<rparr>)"
    by blast
  from c f have "codec = codec_b" by (simp only: option.inject)
  with e have 2: "SetMediaCodec ''MPEG4'' with_codecs =
     Inr (with_codecs\<lparr>fEncoder := (fEncoder with_codecs)\<lparr>MediaCodecInfo := Some codec_b\<rparr>,
            settings := (settings with_codecs)\<lparr>OutputCodec := ''MPEG4''\<rparr>,
            notices := notices with_codecs @ [CodecChanged ''MPEG4'']\<rparr>)"
    by (simp only:)
  from l n m 1 2 show ?thesis by blast
qed

section \<open>The capture thread clears its handle\<close>

lemma CaptureThread_exit_handle:
  "fCaptureThread (CaptureThread_exit error c) = - 1"
  by (simp add: CaptureThread_exit_def Let_def SendNotices_def)

text \<open>
  C6. Whenever the capture thread returns, by a kill request or by a capture or append
  error, whether it ran undisturbed from its start or is alive and joined by \<open>Cancel\<close>
  or \<open>EndCapture\<close>, the controller's capture-thread handle is \<open>- 1\<close>, so that
  \<open>State\<close> does not report Recording afterwards.
\<close>

theorem CaptureThread_clears_handle:
  "(CaptureThread envs c = Inr c' \<longrightarrow>
      fCaptureThread c' = - 1 \<and> State c' \<noteq> STATE_RECORDING) \<and>
   (wait_for_thread (Some error) c = Inr c' \<longrightarrow>
      fCaptureThread c' = - 1 \<and> State c' \<noteq> STATE_RECORDING)"
  by (auto simp: CaptureThread_def wait_for_thread_def State_def CaptureThread_exit_handle
      split: loop_state.splits if_splits)

theorem CaptureThread_clears_handle_witness:
  "CaptureThread [frame_ok, frame_unreadable] (StartCapture start_ok idle0) = Inr after_failed_recording \<and>
   fCaptureThread after_failed_recording = - 1 \<and>
   State after_failed_recording \<noteq> STATE_RECORDING \<and>
   wait_for_thread (Some B_OK) (one_frame\<lparr>fKillCaptureThread := True\<rparr>) = Inr cancelled_recording \<and>
   fCaptureThread cancelled_recording = - 1 \<and>
   State cancelled_recording \<noteq> STATE_RECORDING"
proof -
  have j: "wait_for_thread (Some B_OK) (one_frame\<lparr>fKillCaptureThread := True\<rparr>) = Inr cancelled_recording"
    by (simp add: wait_for_thread_killed CaptureThread_exit_def cancelled_recording_def)
  from CaptureThread_clears_handle
    [of "[frame_ok, frame_unreadable]" "StartCapture start_ok idle0" after_failed_recording]
    failed_recording
  have 1: "fCaptureThread after_failed_recording = - 1"
    "State after_failed_recording \<noteq> STATE_RECORDING"
    by blast+
  from CaptureThread_clears_handle
    [where c = "one_frame\<lparr>fKillCaptureThread := True\<rparr>" and c' = cancelled_recording
       and error = B_OK] j
  have 2: "fCaptureThread cancelled_recording = - 1"
    "State cancelled_recording \<noteq> STATE_RECORDING"
    by blast+
  from failed_recording j 1 2 show ?thesis by (simp only: simp_thms)
qed

section \<open>The requested recording time\<close>

text \<open>
  Apart from \<open>SetRecordingTime\<close> and \<open>StartCapture\<close>, no operation touches the stored
  duration.
\<close>

lemma iteration_requested_time:
  "CaptureThread_iteration turn error c = InLoop error' c' \<Longrightarrow>
   fRequestedRecordTime c' = fRequestedRecordTime c"
  by (auto simp: CaptureThread_iteration_def AddItem_def Let_def split: if_splits option.splits)

lemma TogglePause_requested_time:
  "TogglePause c = Inr c' \<Longrightarrow> fRequestedRecordTime c' = fRequestedRecordTime c"
  by (auto simp: TogglePause_def PauseCapture_def ResumeCapture_def SendNotices_def Let_def
      split: if_splits option.splits)

lemma recording_requested_time:
  "recording evs error c = InLoop error' c' \<Longrightarrow> fRequestedRecordTime c' = fRequestedRecordTime c"
proof (induction evs arbitrary: error c)
  case Nil
  then show ?case by simp
next
  case (Cons ev evs)
  show ?case
  proof (cases ev)
    case (Turn turn)
    with Cons.prems obtain e1 c1 where
      1: "CaptureThread_iteration turn error c = InLoop e1 c1" and
      2: "recording evs e1 c1 = InLoop error' c'"
      by (auto split: loop_state.splits)
    from iteration_requested_time [OF 1] Cons.IH [OF 2] show ?thesis by simp
  next
    case Pause
    with Cons.prems obtain c1 where
      1: "TogglePause c = Inr c1" and 2: "recording evs error c1 = InLoop error' c'"
      by (auto split: sum.splits)
    from TogglePause_requested_time [OF 1] Cons.IH [OF 2] show ?thesis by simp
  qed
qed

lemma CaptureThread_exit_requested_time:
  "fRequestedRecordTime (CaptureThread_exit error c) = fRequestedRecordTime c"
  by (simp add: CaptureThread_exit_def SendNotices_def Let_def)

lemma wait_for_thread_requested_time:
  "wait_for_thread thread c = Inr c' \<Longrightarrow> fRequestedRecordTime c' = fRequestedRecordTime c"
  by (auto simp: wait_for_thread_def CaptureThread_exit_requested_time
      split: option.splits if_splits)

lemma Cancel_requested_time:
  "Cancel thread c = Inr c' \<Longrightarrow> fRequestedRecordTime c' = fRequestedRecordTime c"
  by (cases "State c")
     (auto simp: Cancel_def split: sum.splits dest: wait_for_thread_requested_time)

lemma EncodeMovie_requested_time:
  "EncodeMovie env c = Inr c' \<Longrightarrow> fRequestedRecordTime c' = fRequestedRecordTime c"
  by (auto simp: EncodeMovie_def EncodingFinished_def SendNotices_def Let_def
      split: option.splits if_splits)

lemma EndCapture_requested_time:
  assumes "EndCapture env thread c = Inr c'"
  shows "fRequestedRecordTime c' = fRequestedRecordTime c"
proof (cases "0 < fCaptureThread c")
  case True
  with assms obtain c1 w where
    1: "wait_for_thread thread (c\<lparr>fPaused := False, fKillCaptureThread := True\<rparr>) = Inr c1" and
    2: "fRecordWatch c1 = Some w" and
    3: "EncodeMovie env (SendNotices (CaptureStopped None) (c1\<lparr>fRecordWatch := Some (Suspend w)\<rparr>)) = Inr c'"
    by (auto simp: EndCapture_def split: sum.splits option.splits)
  from wait_for_thread_requested_time [OF 1] EncodeMovie_requested_time [OF 3]
  show ?thesis by (simp add: SendNotices_def)
next
  case False
  with assms obtain w where
    2: "fRecordWatch c = Some w" and
    3: "EncodeMovie env (SendNotices (CaptureStopped None) (c\<lparr>fRecordWatch := Some (Suspend w)\<rparr>)) = Inr c'"
    by (auto simp: EndCapture_def split: sum.splits option.splits)
  from EncodeMovie_requested_time [OF 3] show ?thesis by (simp add: SendNotices_def)
qed

lemma EncodingFinished_requested_time:
  "fRequestedRecordTime (EncodingFinished dest status fileName c) = fRequestedRecordTime c"
  by (simp add: EncodingFinished_def SendNotices_def)

text \<open>
  C4. \<open>SetRecordingTime\<close> changes nothing while Recording; otherwise it stores the
  duration and nothing else. A start that goes through arms, from a stored duration other
  than zero, a runner that fires once after that duration, and leaves the stored duration
  at zero; so a later start, in any state where the stored duration is still what that
  start left, arms no runner.
\<close>

theorem SetRecordingTime_one_shot:
  "(State c = STATE_RECORDING \<longrightarrow> SetRecordingTime msecs c = c) \<and>
   (State c \<noteq> STATE_RECORDING \<longrightarrow>
      SetRecordingTime msecs c = c\<lparr>fRequestedRecordTime := msecs\<rparr>) \<and>
   (started env \<longrightarrow>
      fRequestedRecordTime (StartCapture env c) = 0 \<and>
      fStopRunner (StartCapture env c) =
        (if fRequestedRecordTime c = 0 then None
         else Some \<lparr>runner_message = kMsgGUIToggleCapture,
                    runner_interval = fRequestedRecordTime c, runner_count = 1\<rparr>)) \<and>
   (started env \<and> started env' \<and>
    fRequestedRecordTime later = fRequestedRecordTime (StartCapture env c) \<longrightarrow>
      fStopRunner (StartCapture env' later) = None)"
proof (intro conjI impI)
  show "SetRecordingTime msecs c = c" if "State c = STATE_RECORDING"
    using that by (simp add: SetRecordingTime_def State_def split: if_splits)
  show "SetRecordingTime msecs c = c\<lparr>fRequestedRecordTime := msecs\<rparr>"
    if "State c \<noteq> STATE_RECORDING"
    using that by (simp add: SetRecordingTime_def State_def split: if_splits)
  show "fRequestedRecordTime (StartCapture env c) = 0" if "started env"
    by (simp add: StartCapture_started [OF that])
  show "fStopRunner (StartCapture env c) =
        (if fRequestedRecordTime c = 0 then None
         else Some \<lparr>runner_message = kMsgGUIToggleCapture,
                    runner_interval = fRequestedRecordTime c, runner_count = 1\<rparr>)"
    if "started env"
    by (simp add: StartCapture_started [OF that])
  show "fStopRunner (StartCapture env' later) = None"
    if "started env \<and> started env' \<and>
        fRequestedRecordTime later = fRequestedRecordTime (StartCapture env c)"
  proof -
    from that have "fRequestedRecordTime later = 0"
      by (simp add: StartCapture_started(8))
    with that show ?thesis by (simp add: StartCapture_started(9))
  qed
qed

theorem SetRecordingTime_one_shot_witness:
  "State idle0 \<noteq> STATE_RECORDING \<and>
   SetRecordingTime 2000 idle0 = idle0\<lparr>fRequestedRecordTime := 2000\<rparr> \<and>
   started start_ok \<and>
   fStopRunner (StartCapture start_ok (SetRecordingTime 2000 idle0)) =
     Some \<lparr>runner_message = kMsgGUIToggleCapture, runner_interval = 2000, runner_count = 1\<rparr> \<and>
   fRequestedRecordTime (StartCapture start_ok (SetRecordingTime 2000 idle0)) = 0 \<and>
   State one_frame = STATE_RECORDING \<and>
   SetRecordingTime 2000 one_frame = one_frame \<and>
   (\<exists>later. Cancel (Some B_ERROR) (StartCapture start_ok (SetRecordingTime 2000 idle0)) = Inr later \<and>
      State later = STATE_IDLE \<and> fStopRunner (StartCapture start_ok later) = None)"
proof -
  let ?first = "StartCapture start_ok (idle0\<lparr>fRequestedRecordTime := 2000\<rparr>)"
  have i: "State idle0 \<noteq> STATE_RECORDING" by (simp add: State_idle0)
  have r: "State one_frame = STATE_RECORDING" by (simp add: State_def one_frame_def)
  from SetRecordingTime_one_shot [of idle0 2000 start_ok] i
  have 1: "SetRecordingTime 2000 idle0 = idle0\<lparr>fRequestedRecordTime := 2000\<rparr>" by blast
  from SetRecordingTime_one_shot [of "idle0\<lparr>fRequestedRecordTime := 2000\<rparr>" 0 start_ok]
    started_start_ok
  have 2: "fStopRunner ?first =
     Some \<lparr>runner_message = kMsgGUIToggleCapture, runner_interval = 2000, runner_count = 1\<rparr>"
    and 3: "fRequestedRecordTime ?first = 0"
    by simp_all
  from SetRecordingTime_one_shot [of one_frame 2000 start_ok] r
  have 4: "SetRecordingTime 2000 one_frame = one_frame" by blast
  have "fCaptureThread ?first = spawn_thread start_ok"
    by (rule StartCapture_started(1) [OF started_start_ok])
  then have t: "fCaptureThread ?first = 42" by (simp add: start_ok_def)
  have "fEncoderThread ?first = fEncoderThread (idle0\<lparr>fRequestedRecordTime := 2000\<rparr>)"
    by (rule StartCapture_started(7) [OF started_start_ok])
  then have e: "fEncoderThread ?first = - 1" by (simp add: idle0_def Controller_new_def)
  from t e have f: "State ?first = STATE_RECORDING" "\<not> 0 < fEncoderThread ?first"
    by (simp_all add: State_def)
  from Cancel_Recording_no_frame [OF f(1) B_OK_neq_B_ERROR [symmetric] f(2)]
  obtain later where l: "Cancel (Some B_ERROR) ?first = Inr later" "State later = STATE_IDLE"
    by blast
  from Cancel_requested_time [OF l(1)]
  have "fRequestedRecordTime later = fRequestedRecordTime ?first" .
  with SetRecordingTime_one_shot
    [of "idle0\<lparr>fRequestedRecordTime := 2000\<rparr>" 0 start_ok start_ok later] started_start_ok
  have 5: "fStopRunner (StartCapture start_ok later) = None" by blast
  from l 5 have 6: "\<exists>later. Cancel (Some B_ERROR) ?first = Inr later \<and>
      State later = STATE_IDLE \<and> fStopRunner (StartCapture start_ok later) = None"
    by blast
  from i r 1 2 3 4 6 started_start_ok show ?thesis by (simp only: simp_thms)
qed

section \<open>The frame counter\<close>

lemma recording_inv_start:
  "State c = STATE_IDLE \<Longrightarrow> started env \<Longrightarrow> recording_inv B_ERROR (StartCapture env c)"
  by (simp add: recording_inv_def StartCapture_started State_def started_def CountItems_def
      B_OK_neq_B_ERROR [symmetric] split: if_splits)

lemma iteration_InLoop:
  assumes "CaptureThread_iteration env error c = InLoop error' c'" "fFileList c = Some fs"
  shows "(fPaused c \<and> c' = c \<and> error' = error) \<or>
         (\<not> fPaused c \<and> error' = B_OK \<and>
          c' = c\<lparr>fFileList := Some (fs @ [frame env]), fNumFrames := fNumFrames c + 1\<rparr>)"
  using assms
  by (auto simp: CaptureThread_iteration_def AddItem_def Let_def split: if_splits)

lemma iteration_inv:
  assumes "CaptureThread_iteration env error c = InLoop error' c'" "recording_inv error c"
  shows "recording_inv error' c'"
proof -
  from assms(2) obtain fs where fs: "fFileList c = Some fs"
    by (auto simp: recording_inv_def split: option.splits)
  from iteration_InLoop [OF assms(1) fs] assms(2) fs show ?thesis
    by (auto simp: recording_inv_def CountItems_def B_OK_neq_B_ERROR)
qed

lemma TogglePause_inv:
  assumes "TogglePause c = Inr c'" "recording_inv error c"
  shows "recording_inv error c'"
  using assms
  by (auto simp: TogglePause_def PauseCapture_def ResumeCapture_def SendNotices_def Let_def
      recording_inv_def split: if_splits option.splits)

lemma recording_inv_InLoop:
  "recording evs error c = InLoop error' c' \<Longrightarrow> recording_inv error c \<Longrightarrow> recording_inv error' c'"
proof (induction evs arbitrary: error c)
  case Nil
  then show ?case by simp
next
  case (Cons ev evs)
  show ?case
  proof (cases ev)
    case (Turn env)
    with Cons.prems(1) obtain e1 c1 where
      1: "CaptureThread_iteration env error c = InLoop e1 c1" and
      2: "recording evs e1 c1 = InLoop error' c'"
      by (auto split: loop_state.splits)
    from iteration_inv [OF 1 Cons.prems(2)] Cons.IH [OF 2] show ?thesis by blast
  next
    case Pause
    with Cons.prems(1) obtain c1 where
      1: "TogglePause c = Inr c1" and 2: "recording evs error c1 = InLoop error' c'"
      by (auto split: sum.splits)
    from TogglePause_inv [OF 1 Cons.prems(2)] Cons.IH [OF 2] show ?thesis by blast
  qed
qed

lemma iteration_steps:
  "CaptureThread_iteration env error c =
     (case CaptureThread_append env error c of
        Appended error' c' \<Rightarrow> InLoop error' (atomic_add_fNumFrames c')
      | Snoozed error' c' \<Rightarrow> InLoop error' c'
      | Left error' c' \<Rightarrow> LoopExit error' c'
      | Faulted \<Rightarrow> Fault)"
  by (simp add: CaptureThread_iteration_def CaptureThread_append_def atomic_add_fNumFrames_def
      AddItem_def Let_def split: option.split)

lemma append_Appended:
  assumes "CaptureThread_append env error c = Appended error' c'" "fFileList c = Some fs"
  shows "c' = c\<lparr>fFileList := Some (fs @ [frame env])\<rparr>"
  using assms
  by (auto simp: CaptureThread_append_def AddItem_def Let_def split: if_splits)

text \<open>
  C7, as stated, fails in two ways. Inside a turn: the first frame of a recording is in the
  store while the counter is still zero, because the append and the increment are two
  statements. And by a message: a recording is toggled off, its encoding is cancelled (the
  state is Idle at once), a new recording stores a frame, and then the terminal message of
  the cancelled encoder is handled; \<^verbatim>\<open>_EncodingFinished\<close> sets the counter to
  zero while the state is Recording and the store holds the frame.
\<close>

theorem frame_counter_counterexample:
  "CaptureThread_append frame_ok B_ERROR (StartCapture start_ok idle0) =
     Appended B_OK appended_not_counted \<and>
   State appended_not_counted = STATE_RECORDING \<and>
   fFileList appended_not_counted = Some [frame frame_ok] \<and>
   fNumFrames appended_not_counted = 0 \<and>
   CountItems [frame frame_ok] = 1 \<and>
   fNumFrames appended_not_counted \<noteq> CountItems [frame frame_ok] \<and>
   ToggleCapture start_ok encode_ok (Some B_OK) one_frame = Inr encoding_one \<and>
   State encoding_one = STATE_ENCODING \<and>
   Cancel None encoding_one = Inr encoding_cancelled \<and>
   State encoding_cancelled = STATE_IDLE \<and>
   recording [Turn frame_ok] B_ERROR (StartCapture start_ok encoding_cancelled) =
     InLoop B_OK second_recording \<and>
   fNumFrames second_recording = 1 \<and>
   MessageReceived start_ok encode_ok (Some B_OK) (kEncodingFinished B_ERROR None) second_recording =
     Inr stale_finish \<and>
   State stale_finish = STATE_RECORDING \<and>
   fFileList stale_finish = Some [frame frame_ok] \<and>
   fNumFrames stale_finish = 0 \<and>
   fNumFrames stale_finish \<noteq> CountItems [frame frame_ok]"
proof -
  have 1: "CaptureThread_append frame_ok B_ERROR (StartCapture start_ok idle0) =
     Appended B_OK appended_not_counted"
    by (simp add: StartCapture_start_ok)
       (simp add: example_defs session_defs CaptureThread_append_def AddItem_def B_OK_def Let_def)
  have 2: "State appended_not_counted = STATE_RECORDING"
    by (simp add: State_def appended_not_counted_def one_frame_def)
  have 3: "fFileList appended_not_counted = Some [frame frame_ok]"
    by (simp add: appended_not_counted_def one_frame_def)
  have 4: "fNumFrames appended_not_counted = 0"
    by (simp add: appended_not_counted_def)
  have 5: "CountItems [frame frame_ok] = 1"
    by (simp add: CountItems_def)
  have r: "State one_frame = STATE_RECORDING"
    by (simp add: State_def one_frame_def)
  have 6: "ToggleCapture start_ok encode_ok (Some B_OK) one_frame = Inr encoding_one"
    by (simp add: ToggleCapture_def r)
       (simp add: example_defs session_defs EndCapture_def wait_for_thread_def
          CaptureThread_exit_def EncodeMovie_def CountItems_def SendNotices_def Suspend_def
          B_OK_def Let_def word_sle_eq)
  have 7: "State encoding_one = STATE_ENCODING"
    by (simp add: State_def encoding_one_def idle0_def Controller_new_def)
  have 8: "Cancel None encoding_one = Inr encoding_cancelled"
    by (simp add: Cancel_def 7 encoding_cancelled_def)
  have 9: "State encoding_cancelled = STATE_IDLE"
    by (simp add: State_def encoding_cancelled_def encoding_one_def idle0_def Controller_new_def)
  have 10: "recording [Turn frame_ok] B_ERROR (StartCapture start_ok encoding_cancelled) =
     InLoop B_OK second_recording"
    by (simp add: example_defs session_defs StartCapture_def StartCapture_spawn_def
        arm_stop_runner_def SendNotices_def CaptureThread_iteration_def AddItem_def
        B_OK_def B_ERROR_def Let_def)
  have 11: "fNumFrames second_recording = 1"
    by (simp add: second_recording_def)
  have 12: "MessageReceived start_ok encode_ok (Some B_OK) (kEncodingFinished B_ERROR None)
      second_recording = Inr stale_finish"
    by (simp add: MessageReceived_def EncodingFinished_def SendNotices_def B_ERROR_def
        example_defs session_defs)
  have 13: "State stale_finish = STATE_RECORDING"
    by (simp add: State_def stale_finish_def second_recording_def)
  have 14: "fFileList stale_finish = Some [frame frame_ok]"
    by (simp add: stale_finish_def second_recording_def)
  have 15: "fNumFrames stale_finish = 0"
    by (simp add: stale_finish_def)
  have 16: "fNumFrames appended_not_counted \<noteq> CountItems [frame frame_ok]"
    by (simp add: 4 5)
  have 17: "fNumFrames stale_finish \<noteq> CountItems [frame frame_ok]"
    by (simp add: 15 5)
  from 1 2 3 4 5 6 7 8 9 10 11 12 13 14 15 16 17 show ?thesis by (simp only: simp_thms)
qed

text \<open>
  C7, amended. A recording started from Idle begins with the counter at zero and an empty
  store. As long as only turns of the capture thread and pause commands run, then between
  any two turns the state is Recording and the counter is the number of items in the store;
  a further turn that stays in the loop either leaves both alone (paused) or appends one
  frame and adds one to the counter. Inside such a turn, after the append and before the
  increment, the store holds the new frame and the counter is one behind; the increment
  makes them equal again.
\<close>

theorem frame_counter_matches_store:
  assumes "State c = STATE_IDLE" "started env"
    and "recording evs B_ERROR (StartCapture env c) = InLoop error c'"
  shows "fNumFrames (StartCapture env c) = 0 \<and> fFileList (StartCapture env c) = Some [] \<and>
         State c' = STATE_RECORDING \<and>
         (\<exists>fs. fFileList c' = Some fs \<and> fNumFrames c' = CountItems fs \<and>
            (\<forall>turn error1 error2 c2. CaptureThread_iteration turn error1 c' = InLoop error2 c2 \<longrightarrow>
               (fFileList c2 = Some fs \<and> fNumFrames c2 = fNumFrames c') \<or>
               (fFileList c2 = Some (fs @ [frame turn]) \<and> fNumFrames c2 = fNumFrames c' + 1)) \<and>
            (\<forall>turn error1 error2 c2. CaptureThread_append turn error1 c' = Appended error2 c2 \<longrightarrow>
               State c2 = STATE_RECORDING \<and>
               fFileList c2 = Some (fs @ [frame turn]) \<and> fNumFrames c2 = CountItems fs \<and>
               CaptureThread_iteration turn error1 c' = InLoop error2 (atomic_add_fNumFrames c2) \<and>
               fNumFrames (atomic_add_fNumFrames c2) = CountItems (fs @ [frame turn])))"
proof -
  from assms(1) have n: "fFileList c = None" by (simp add: State_def split: if_splits)
  have s: "fNumFrames (StartCapture env c) = 0" "fFileList (StartCapture env c) = Some []"
    using n by (simp_all add: StartCapture_started [OF assms(2)])
  have "recording_inv error c'"
    using recording_inv_InLoop [OF assms(3) recording_inv_start [OF assms(1,2)]] .
  then obtain fs where fs: "fFileList c' = Some fs" "fNumFrames c' = CountItems fs"
    and t: "0 < fCaptureThread c'"
    by (auto simp: recording_inv_def split: option.splits)
  have a: "(fFileList c2 = Some fs \<and> fNumFrames c2 = fNumFrames c') \<or>
        (fFileList c2 = Some (fs @ [frame turn]) \<and> fNumFrames c2 = fNumFrames c' + 1)"
    if "CaptureThread_iteration turn error1 c' = InLoop error2 c2" for turn error1 error2 c2
    using iteration_InLoop [OF that fs(1)] fs(1) by auto
  have b: "State c2 = STATE_RECORDING \<and>
        fFileList c2 = Some (fs @ [frame turn]) \<and> fNumFrames c2 = CountItems fs \<and>
        CaptureThread_iteration turn error1 c' = InLoop error2 (atomic_add_fNumFrames c2) \<and>
        fNumFrames (atomic_add_fNumFrames c2) = CountItems (fs @ [frame turn])"
    if "CaptureThread_append turn error1 c' = Appended error2 c2" for turn error1 error2 c2
  proof -
    from append_Appended [OF that fs(1)]
    have c2: "c2 = c'\<lparr>fFileList := Some (fs @ [frame turn])\<rparr>" .
    have i: "CaptureThread_iteration turn error1 c' = InLoop error2 (atomic_add_fNumFrames c2)"
      by (simp add: iteration_steps that)
    from c2 fs t i show ?thesis
      by (simp add: State_def atomic_add_fNumFrames_def CountItems_def)
  qed
  from s fs t a b show ?thesis by (simp add: State_def)
qed

lemma recording_two_frames:
  "recording [Turn frame_ok, Pause, Turn frame_unreadable, Pause, Turn frame_ok] B_ERROR
     (StartCapture start_ok idle0) = InLoop B_OK two_frames_paused_between"
  by (simp add: StartCapture_start_ok)
     (simp add: example_defs CaptureThread_iteration_def TogglePause_def PauseCapture_def
        ResumeCapture_def Suspend_def Resume_def
        AddItem_def SendNotices_def B_OK_def B_ERROR_def Let_def)

theorem frame_counter_matches_store_witness:
  "State idle0 = STATE_IDLE \<and> started start_ok \<and>
   recording [Turn frame_ok, Pause, Turn frame_unreadable, Pause, Turn frame_ok] B_ERROR
     (StartCapture start_ok idle0) = InLoop B_OK two_frames_paused_between \<and>
   State two_frames_paused_between = STATE_RECORDING \<and>
   fFileList two_frames_paused_between = Some [frame frame_ok, frame frame_ok] \<and>
   fNumFrames two_frames_paused_between = CountItems [frame frame_ok, frame frame_ok] \<and>
   fNumFrames two_frames_paused_between = 2 \<and>
   recording [] B_ERROR (StartCapture start_ok idle0) = InLoop B_ERROR (StartCapture start_ok idle0) \<and>
   CaptureThread_append frame_ok B_ERROR (StartCapture start_ok idle0) =
     Appended B_OK appended_not_counted \<and>
   fFileList appended_not_counted = Some [frame frame_ok] \<and>
   fNumFrames appended_not_counted = CountItems [] \<and>
   CaptureThread_iteration frame_ok B_ERROR (StartCapture start_ok idle0) =
     InLoop B_OK (atomic_add_fNumFrames appended_not_counted) \<and>
   fNumFrames (atomic_add_fNumFrames appended_not_counted) = CountItems [frame frame_ok]"
proof -
  have f: "fFileList two_frames_paused_between = Some [frame frame_ok, frame frame_ok]"
    by (simp add: two_frames_paused_between_def)
  have n: "fNumFrames two_frames_paused_between = 2"
    by (simp add: two_frames_paused_between_def)
  from frame_counter_matches_store [OF State_idle0 started_start_ok recording_two_frames] f
  have 1: "State two_frames_paused_between = STATE_RECORDING"
    and 2: "fNumFrames two_frames_paused_between = CountItems [frame frame_ok, frame frame_ok]"
    by auto
  have e: "recording [] B_ERROR (StartCapture start_ok idle0) =
      InLoop B_ERROR (StartCapture start_ok idle0)"
    by simp
  have a: "CaptureThread_append frame_ok B_ERROR (StartCapture start_ok idle0) =
     Appended B_OK appended_not_counted"
    by (simp add: StartCapture_start_ok)
       (simp add: example_defs session_defs CaptureThread_append_def AddItem_def B_OK_def Let_def)
  have s: "fFileList (StartCapture start_ok idle0) = Some []"
    by (simp add: StartCapture_start_ok)
  from frame_counter_matches_store [OF State_idle0 started_start_ok e] s
  have "\<forall>turn error1 error2 c2.
      CaptureThread_append turn error1 (StartCapture start_ok idle0) = Appended error2 c2 \<longrightarrow>
        State c2 = STATE_RECORDING \<and>
        fFileList c2 = Some ([] @ [frame turn]) \<and> fNumFrames c2 = CountItems [] \<and>
        CaptureThread_iteration turn error1 (StartCapture start_ok idle0) =
          InLoop error2 (atomic_add_fNumFrames c2) \<and>
        fNumFrames (atomic_add_fNumFrames c2) = CountItems ([] @ [frame turn])"
    by auto
  with a have 3: "fFileList appended_not_counted = Some [frame frame_ok]"
    and 4: "fNumFrames appended_not_counted = CountItems []"
    and 5: "CaptureThread_iteration frame_ok B_ERROR (StartCapture start_ok idle0) =
     InLoop B_OK (atomic_add_fNumFrames appended_not_counted)"
    and 6: "fNumFrames (atomic_add_fNumFrames appended_not_counted) = CountItems [frame frame_ok]"
    by fastforce+
  from State_idle0 started_start_ok recording_two_frames f n 1 2 e a 3 4 5 6
  show ?thesis by (simp only: simp_thms)
qed

section \<open>Starting when the store cannot be allocated\<close>

text \<open>
  C5, as stated, fails: on the allocation failure the frame counter is reset although the
  claim allows no other change; here a recording stored one frame and stopped on a read
  error, which leaves the state Idle and the counter at one. And a store that exists is
  kept, not replaced: here the one left behind by a cancelled recording.
\<close>

theorem StartCapture_alloc_failure_counterexample:
  "CaptureThread [frame_ok, frame_unreadable] (StartCapture start_ok idle0) = Inr after_failed_recording \<and>
   State after_failed_recording = STATE_IDLE \<and>
   new_FramesList start_no_memory = Some B_NO_MEMORY \<and>
   fNumFrames after_failed_recording = 1 \<and>
   fNumFrames (StartCapture start_no_memory after_failed_recording) = 0 \<and>
   StartCapture start_no_memory after_failed_recording \<noteq>
     SendNotices (CaptureStopped (Some B_NO_MEMORY)) after_failed_recording \<and>
   fFileList cancelled_recording = Some [frame frame_ok] \<and>
   fFileList (StartCapture start_ok cancelled_recording) = Some [frame frame_ok]"
proof -
  have s: "State after_failed_recording = STATE_IDLE"
    by (simp add: State_def after_failed_recording_def idle0_def Controller_new_def)
  have m: "new_FramesList start_no_memory = Some B_NO_MEMORY"
    by (simp add: start_no_memory_def B_NO_MEMORY_def)
  have n: "fNumFrames after_failed_recording = 1"
    by (simp add: after_failed_recording_def)
  have f: "fFileList after_failed_recording = None"
    by (simp add: after_failed_recording_def idle0_def Controller_new_def)
  have z: "fNumFrames (StartCapture start_no_memory after_failed_recording) = 0"
    using f m by (simp add: StartCapture_def SendNotices_def)
  have "fNumFrames (SendNotices (CaptureStopped (Some B_NO_MEMORY)) after_failed_recording) = 1"
    using n by (simp add: SendNotices_def)
  with z have d: "StartCapture start_no_memory after_failed_recording \<noteq>
     SendNotices (CaptureStopped (Some B_NO_MEMORY)) after_failed_recording"
    by auto
  have k: "fFileList cancelled_recording = Some [frame frame_ok]"
    by (simp add: cancelled_recording_def one_frame_def)
  have r: "fFileList (StartCapture start_ok cancelled_recording) = Some [frame frame_ok]"
    using k
    by (simp add: StartCapture_def StartCapture_spawn_def arm_stop_runner_def SendNotices_def
        start_ok_def B_OK_def Let_def)
  from failed_recording s m n z d k r show ?thesis by (simp only: simp_thms)
qed

text \<open>
  C5, amended. \<open>StartCapture\<close> called in the Idle state leaves a fresh, empty store when
  the allocation succeeds. When the allocation fails with a status, it sends
  CaptureStopped with that status, the state stays Idle, the capture-thread handle is
  untouched, and nothing changes but the frame counter, which is zero afterwards, and the
  notices.
\<close>

theorem StartCapture_fresh_store:
  "State c = STATE_IDLE \<Longrightarrow>
     (new_FramesList env = None \<longrightarrow> fFileList (StartCapture env c) = Some []) \<and>
     (\<forall>err. new_FramesList env = Some err \<longrightarrow>
        StartCapture env c =
          c\<lparr>fNumFrames := 0, notices := notices c @ [CaptureStopped (Some err)]\<rparr> \<and>
        State (StartCapture env c) = STATE_IDLE \<and>
        fCaptureThread (StartCapture env c) = fCaptureThread c)"
proof -
  assume "State c = STATE_IDLE"
  then have n: "fFileList c = None" and t: "\<not> 0 < fCaptureThread c" "\<not> 0 < fEncoderThread c"
    by (simp_all add: State_def split: if_splits)
  have 1: "fFileList (StartCapture env c) = Some []" if "new_FramesList env = None"
    using n that
    by (simp add: StartCapture_def StartCapture_spawn_def Let_def SendNotices_def arm_stop_runner_def)
  have 2: "StartCapture env c =
          c\<lparr>fNumFrames := 0, notices := notices c @ [CaptureStopped (Some err)]\<rparr>"
    if "new_FramesList env = Some err" for err
    using n that by (simp add: StartCapture_def SendNotices_def)
  from 1 2 n t show ?thesis by (auto simp: State_def)
qed

theorem StartCapture_fresh_store_witness:
  "State after_failed_recording = STATE_IDLE \<and>
   new_FramesList start_ok = None \<and>
   fFileList (StartCapture start_ok after_failed_recording) = Some [] \<and>
   new_FramesList start_no_memory = Some B_NO_MEMORY \<and>
   StartCapture start_no_memory after_failed_recording =
     after_failed_recording\<lparr>fNumFrames := 0,
       notices := notices after_failed_recording @ [CaptureStopped (Some B_NO_MEMORY)]\<rparr> \<and>
   State (StartCapture start_no_memory after_failed_recording) = STATE_IDLE \<and>
   fCaptureThread (StartCapture start_no_memory after_failed_recording) = - 1"
proof -
  have s: "State after_failed_recording = STATE_IDLE"
    by (simp add: State_def after_failed_recording_def idle0_def Controller_new_def)
  have m: "new_FramesList start_no_memory = Some B_NO_MEMORY"
    by (simp add: start_no_memory_def B_NO_MEMORY_def)
  have k: "new_FramesList start_ok = None" by (simp add: start_ok_def)
  have t: "fCaptureThread after_failed_recording = - 1"
    by (simp add: after_failed_recording_def idle0_def Controller_new_def)
  from StartCapture_fresh_store [OF s, of start_ok] k
  have 1: "fFileList (StartCapture start_ok after_failed_recording) = Some []" by blast
  from StartCapture_fresh_store [OF s, of start_no_memory] m
  have 2: "StartCapture start_no_memory after_failed_recording =
     after_failed_recording\<lparr>fNumFrames := 0,
       notices := notices after_failed_recording @ [CaptureStopped (Some B_NO_MEMORY)]\<rparr>"
    and 3: "State (StartCapture start_no_memory after_failed_recording) = STATE_IDLE"
    and 4: "fCaptureThread (StartCapture start_no_memory after_failed_recording) =
            fCaptureThread after_failed_recording"
    by blast+
  from s m k 1 2 3 4 t show ?thesis by (simp only: simp_thms)
qed

section \<open>Cancelling a recording\<close>

lemma Cancel_Recording_frames:
  assumes "State c = STATE_RECORDING" "fFileList c = Some fs"
  shows "Cancel (Some B_OK) c = Inr (c\<lparr>fCaptureThread := - 1, fKillCaptureThread := True\<rparr>)"
  using assms
  by (simp add: Cancel_Recording CaptureThread_exit_def Let_def)

lemma Cancel_after_frames:
  assumes "State c = STATE_IDLE" "started env"
    and "recording evs B_ERROR (StartCapture env c) = InLoop error c1"
    and "fFileList c1 = Some fs" "fs \<noteq> []"
  shows "\<exists>c2. Cancel (Some error) c1 = Inr c2 \<and> fFileList c2 = Some fs \<and> State c2 = STATE_ENCODING"
proof -
  have inv: "recording_inv error c1"
    using recording_inv_InLoop [OF assms(3) recording_inv_start [OF assms(1,2)]] .
  with assms(4,5) have e: "error = B_OK" and r: "State c1 = STATE_RECORDING"
    by (auto simp: recording_inv_def State_def)
  show ?thesis
    using assms(4) by (simp add: e Cancel_Recording_frames [OF r assms(4)] State_def)
qed

lemma Cancel_before_first_frame:
  assumes "State c = STATE_IDLE" "started env"
    and "recording evs B_ERROR (StartCapture env c) = InLoop error c1"
    and "fFileList c1 = Some []"
  shows "\<exists>c2. Cancel (Some error) c1 = Inr c2 \<and> fFileList c2 = None \<and> State c2 = STATE_IDLE"
proof -
  have pres: "fEncoderThread c' = fEncoderThread c0"
    if "recording evs' e0 c0 = InLoop e' c'" for evs' e0 c0 e' c'
    using that
  proof (induction evs' arbitrary: e0 c0)
    case Nil
    then show ?case by simp
  next
    case (Cons ev evs')
    show ?case
    proof (cases ev)
      case (Turn t)
      with Cons.prems obtain e1 c1' where
        1: "CaptureThread_iteration t e0 c0 = InLoop e1 c1'" and
        2: "recording evs' e1 c1' = InLoop e' c'"
        by (auto split: loop_state.splits)
      from 1 have "fEncoderThread c1' = fEncoderThread c0"
        by (auto simp: CaptureThread_iteration_def AddItem_def Let_def
            split: if_splits option.splits)
      with Cons.IH [OF 2] show ?thesis by simp
    next
      case Pause
      with Cons.prems obtain c1' where
        1: "TogglePause c0 = Inr c1'" and 2: "recording evs' e0 c1' = InLoop e' c'"
        by (auto split: sum.splits)
      from 1 have "fEncoderThread c1' = fEncoderThread c0"
        by (auto simp: TogglePause_def PauseCapture_def ResumeCapture_def SendNotices_def Let_def
            split: if_splits option.splits)
      with Cons.IH [OF 2] show ?thesis by simp
    qed
  qed
  have inv: "recording_inv error c1"
    using recording_inv_InLoop [OF assms(3) recording_inv_start [OF assms(1,2)]] .
  with assms(4) have e: "error \<noteq> B_OK" and r: "State c1 = STATE_RECORDING"
    by (auto simp: recording_inv_def State_def)
  from assms(1) have "\<not> 0 < fEncoderThread c" by (simp add: State_def split: if_splits)
  with pres [OF assms(3)] have "\<not> 0 < fEncoderThread c1"
    by (simp add: StartCapture_started [OF assms(2)])
  from Cancel_Recording_no_frame [OF r e this] show ?thesis by blast
qed

text \<open>Once the store is left behind, neither command ends the Encoding state.\<close>

lemma stale_store_is_stuck:
  assumes "State c = STATE_ENCODING" "fFileList c = Some fs"
  shows "ToggleCapture senv eenv thread c = Inr c"
    and "\<exists>c'. Cancel thread c = Inr c' \<and> fFileList c' = Some fs \<and> State c' = STATE_ENCODING"
    and "\<not> QuitRequested c"
  using assms
  by (simp_all add: ToggleCapture_def Cancel_def State_def QuitRequested_def split: if_splits)

text \<open>
  C1. Cancelling after one frame has been stored: the capture thread leaves its loop with
  \<^verbatim>\<open>error == B_OK\<close>, so it does not delete the store, and \<open>Cancel\<close> does not
  either. The store still holds the frame and \<open>State\<close> reports Encoding, not Idle. From
  there \<open>ToggleCapture\<close> does nothing, a second \<open>Cancel\<close> keeps the store, and
  \<open>QuitRequested\<close> refuses.
\<close>

theorem Cancel_keeps_frame_store:
  "recording [Turn frame_ok] B_ERROR (StartCapture start_ok idle0) = InLoop B_OK one_frame \<and>
   State one_frame = STATE_RECORDING \<and>
   Cancel (Some B_OK) one_frame = Inr cancelled_recording \<and>
   fFileList cancelled_recording = Some [frame frame_ok] \<and>
   State cancelled_recording = STATE_ENCODING \<and>
   ToggleCapture start_ok encode_ok None cancelled_recording = Inr cancelled_recording \<and>
   Cancel None cancelled_recording =
     Inr (cancelled_recording\<lparr>fEncoder := (fEncoder cancelled_recording)\<lparr>cancelled := True\<rparr>\<rparr>) \<and>
   State (cancelled_recording\<lparr>fEncoder := (fEncoder cancelled_recording)\<lparr>cancelled := True\<rparr>\<rparr>) =
     STATE_ENCODING \<and>
   \<not> QuitRequested cancelled_recording"
proof -
  have 1: "recording [Turn frame_ok] B_ERROR (StartCapture start_ok idle0) = InLoop B_OK one_frame"
    by (simp add: StartCapture_start_ok)
       (simp add: example_defs CaptureThread_iteration_def AddItem_def B_OK_def B_ERROR_def Let_def)
  have 2: "State one_frame = STATE_RECORDING"
    by (simp add: State_def one_frame_def)
  have 3: "Cancel (Some B_OK) one_frame = Inr cancelled_recording"
    by (simp add: Cancel_def 2 wait_for_thread_def CaptureThread_exit_def cancelled_recording_def)
  have 4: "fFileList cancelled_recording = Some [frame frame_ok]"
    by (simp add: cancelled_recording_def one_frame_def)
  have 5: "State cancelled_recording = STATE_ENCODING"
    by (simp add: State_def cancelled_recording_def one_frame_def idle0_def Controller_new_def)
  have 6: "ToggleCapture start_ok encode_ok None cancelled_recording = Inr cancelled_recording"
    by (simp add: ToggleCapture_def 5)
  have 7: "Cancel None cancelled_recording =
     Inr (cancelled_recording\<lparr>fEncoder := (fEncoder cancelled_recording)\<lparr>cancelled := True\<rparr>\<rparr>)"
    by (simp add: Cancel_def 5)
       (simp add: cancelled_recording_def one_frame_def idle0_def Controller_new_def)
  have 8: "State (cancelled_recording\<lparr>fEncoder := (fEncoder cancelled_recording)\<lparr>cancelled := True\<rparr>\<rparr>) =
     STATE_ENCODING"
    by (simp add: State_def cancelled_recording_def one_frame_def idle0_def Controller_new_def)
  have 9: "\<not> QuitRequested cancelled_recording"
    using 4 by (simp add: QuitRequested_def)
  from 1 2 3 4 5 6 7 8 9 show ?thesis by (simp only: simp_thms)
qed

section \<open>Ending a recording without frames\<close>

lemma EncodeMovie_empty_store:
  "fFileList c = Some [] \<Longrightarrow>
   EncodeMovie env c =
     Inr (c\<lparr>fEncoderThread := - 1, fNumFrames := 0,
            notices := notices c @ [EncodeFinished B_ERROR None], fFileList := None\<rparr>)"
  by (simp add: EncodeMovie_def CountItems_def EncodingFinished_def SendNotices_def)

lemma EndCapture_no_frame:
  assumes "State c = STATE_RECORDING" "error \<noteq> B_OK"
  shows "EndCapture env (Some error) c = Inl NullDereference"
  using assms
  by (simp add: EndCapture_def State_def wait_for_thread_killed CaptureThread_exit_def
      SendNotices_def EncodeMovie_def Let_def split: if_splits option.splits)

lemma ToggleCapture_before_first_frame:
  assumes "State c = STATE_IDLE" "started env"
    and "recording evs B_ERROR (StartCapture env c) = InLoop error c1"
    and "fFileList c1 = Some []"
  shows "ToggleCapture senv eenv (Some error) c1 = Inl NullDereference"
proof -
  have inv: "recording_inv error c1"
    using recording_inv_InLoop [OF assms(3) recording_inv_start [OF assms(1,2)]] .
  with assms(4) have e: "error \<noteq> B_OK" and r: "State c1 = STATE_RECORDING"
    by (auto simp: recording_inv_def State_def)
  show ?thesis by (simp add: ToggleCapture_def r EndCapture_no_frame [OF r e])
qed

text \<open>
  C3. Toggling a recording off before the first frame is stored: the capture thread leaves
  its loop with \<^verbatim>\<open>error\<close> still \<open>B_ERROR\<close>, deletes the store and clears
  \<^verbatim>\<open>fFileList\<close>; \<open>EncodeMovie\<close> then calls \<^verbatim>\<open>CountItems\<close> through the
  null pointer. No EncodeFinished notice is sent.
\<close>

theorem EndCapture_empty_recording_faults:
  "State idle0 = STATE_IDLE \<and>
   State (StartCapture start_ok idle0) = STATE_RECORDING \<and>
   fFileList (StartCapture start_ok idle0) = Some [] \<and>
   recording [] B_ERROR (StartCapture start_ok idle0) = InLoop B_ERROR (StartCapture start_ok idle0) \<and>
   ToggleCapture start_ok encode_ok (Some B_ERROR) (StartCapture start_ok idle0) = Inl NullDereference"
proof -
  have 1: "State (StartCapture start_ok idle0) = STATE_RECORDING"
    by (simp add: StartCapture_start_ok State_def)
  have 2: "fFileList (StartCapture start_ok idle0) = Some []"
    by (simp add: StartCapture_start_ok)
  have 3: "ToggleCapture start_ok encode_ok (Some B_ERROR) (StartCapture start_ok idle0) = Inl NullDereference"
    by (simp add: ToggleCapture_def 1)
       (simp add: StartCapture_start_ok EndCapture_def wait_for_thread_def CaptureThread_exit_def
          SendNotices_def EncodeMovie_def B_OK_def B_ERROR_def Let_def)
  from State_idle0 1 2 3 show ?thesis by simp
qed

section \<open>The average frame rate\<close>

lemma AverageFPS_zero_time: "RecordTime c = 0 \<Longrightarrow> AverageFPS c = 0"
  by (simp add: AverageFPS_def)

lemma AverageFPS_no_stopwatch: "fRecordWatch c = None \<Longrightarrow> AverageFPS c = 0"
  by (simp add: AverageFPS_def RecordTime_def)

lemma sdiv_abs_le: "\<bar>(a::int) sdiv b\<bar> \<le> \<bar>a\<bar>"
proof -
  have q: "0 \<le> \<bar>a\<bar> div \<bar>b\<bar>"
    by (simp add: div_int_pos_iff)
  have le: "\<bar>a\<bar> div \<bar>b\<bar> \<le> \<bar>a\<bar>"
  proof (cases "a = 0")
    case True
    then show ?thesis by simp
  next
    case False
    then have "0 < \<bar>a\<bar>" by simp
    then show ?thesis by (rule int_div_le_self)
  qed
  have "\<bar>a sdiv b\<bar> = \<bar>sgn a\<bar> * \<bar>sgn b\<bar> * (\<bar>a\<bar> div \<bar>b\<bar>)"
    using q by (simp only: signed_divide_int_def abs_mult abs_of_nonneg)
  also have "\<dots> \<le> 1 * 1 * (\<bar>a\<bar> div \<bar>b\<bar>)"
    using q by (intro mult_right_mono mult_mono) (simp_all add: abs_sgn_eq)
  finally show ?thesis using le by simp
qed

lemma sint_frames_product:
  fixes n :: int32
  assumes "0 \<le> sint n" "sint n \<le> 2147"
  shows "sint (n * 1000000) = sint n * 1000000"
proof -
  have "sint (n * 1000000) = signed_take_bit 31 (sint n * sint (1000000 :: int32))"
    by (simp add: sint_word_ariths)
  also have "sint (1000000 :: int32) = 1000000" by simp
  also have "signed_take_bit 31 (sint n * 1000000) = sint n * 1000000"
    using assms by (intro signed_take_bit_int_eq_self) auto
  finally show ?thesis .
qed

lemma AverageFPS_in_range:
  assumes "RecordTime c \<noteq> 0" "0 \<le> sint (RecordedFrames c)" "sint (RecordedFrames c) \<le> 2147"
  shows "sint (AverageFPS c) = (sint (RecordedFrames c) * 1000000) sdiv sint (RecordTime c)"
proof -
  let ?q = "(sint (RecordedFrames c) * 1000000) sdiv sint (RecordTime c)"
  have "\<bar>?q\<bar> \<le> \<bar>sint (RecordedFrames c) * 1000000\<bar>" by (rule sdiv_abs_le)
  with assms have "- (2 ^ 31) \<le> ?q" "?q < 2 ^ 31" by auto
  then have "sint (word_of_int ?q :: int32) = ?q"
    by (simp add: sint_sbintrunc' signed_take_bit_int_eq_self)
  then show ?thesis
    using assms by (simp add: AverageFPS_def sint_frames_product)
qed

text \<open>
  C9. With 3000 frames recorded in 100 seconds the 32-bit product
  \<^verbatim>\<open>RecordedFrames() * 1000000\<close> wraps around, and \<open>AverageFPS\<close> is \<open>- 12\<close>, where
  the quotient of the claim is 30.
\<close>

theorem AverageFPS_overflow:
  "RecordedFrames long_recording = 3000 \<and> RecordTime long_recording = 100000000 \<and>
   sint (AverageFPS long_recording) = - 12 \<and>
   (3000 * 1000000) sdiv (100000000 :: int) = 30"
  by (simp add: long_recording_def idle0_def Controller_new_def AverageFPS_def RecordTime_def RecordedFrames_def)

end
